theory Spec2Isabelle
  imports Main "HOL-Library.AList"
begin

section \<open>buildeasy: a source file turned into a singleton instance\<close>

text \<open>
  A shallow embedding of \<^verbatim>\<open>buildeasy/buildeasy.py\<close>. The class \<^verbatim>\<open>FileAsClass\<close> keeps a
  process-wide dictionary \<^verbatim>\<open>_cache\<close> and rewrites \<^verbatim>\<open>sys.modules\<close> from its
  \<^verbatim>\<open>__init_subclass__\<close> hook. Both dictionaries are fields of an explicit process state;
  every raise of the source is a value of the type \<open>pyexn\<close>; the instances live in a heap
  indexed by addresses, so that "the same instance" is "the same address".

  What the interpreter and the user's classes do when the source calls them is modelled as
  far as the source depends on it: attribute assignment stores into the instance's
  \<^verbatim>\<open>__dict__\<close>, the user's constructor raises or fills the \<^verbatim>\<open>__dict__\<close> and does nothing
  else, \<^verbatim>\<open>__import__\<close> and \<^verbatim>\<open>pickle\<close> are named where they come in.
\<close>

subsection \<open>Values and exceptions\<close>

text \<open>
  The Python values that the code inspects: it asks whether a value is callable, whether it is
  a \<^verbatim>\<open>staticmethod\<close> or a \<^verbatim>\<open>classmethod\<close> object, and whether it is a tuple.
  \<open>PRef\<close> is a reference to an instance in the heap, \<open>POpaque\<close> any other object.
\<close>

datatype pyval =
    PNone
  | PBool bool
  | PInt int
  | PStr string
  | PTuple "pyval list"
  | PList "pyval list"
  | PFunction string
  | PStaticMethod string
  | PClassMethod string
  | PRef nat
  | POpaque string

text \<open>
  Exceptions. \<open>TransformationError\<close> is the class declared in the source; it carries its
  message and the exception it was raised \<^verbatim>\<open>from\<close>. \<open>OtherError\<close> is any other subclass
  of \<^verbatim>\<open>Exception\<close>, with the name of its class and its message. \<open>SystemExit\<close> (with its
  code as text) and \<open>KeyboardInterrupt\<close> derive from \<^verbatim>\<open>BaseException\<close> and not from
  \<^verbatim>\<open>Exception\<close>: a handler \<^verbatim>\<open>except Exception\<close> does not catch them.
\<close>

datatype pyexn =
    RuntimeError string
  | KeyError string
  | TypeError string
  | AttributeError string
  | IndexError string
  | RecursionError
  | FileNotFoundError string
  | EOFError
  | TransformationError string pyexn
  | OtherError string string
  | SystemExit string
  | KeyboardInterrupt

definition quoted :: "string \<Rightarrow> string" where
  "quoted s = [CHR 0x27] @ s @ [CHR 0x27]"

text \<open>\<^verbatim>\<open>str(e)\<close>, as the f-strings of the source format an exception.\<close>

fun exn_str :: "pyexn \<Rightarrow> string" where
  "exn_str (RuntimeError m) = m"
| "exn_str (KeyError k) = quoted k"
| "exn_str (TypeError m) = m"
| "exn_str (AttributeError m) = m"
| "exn_str (IndexError m) = m"
| "exn_str RecursionError = ''maximum recursion depth exceeded''"
| "exn_str (FileNotFoundError m) = m"
| "exn_str EOFError = ''Ran out of input''"
| "exn_str (TransformationError m cause) = m"
| "exn_str (OtherError cls m) = m"
| "exn_str (SystemExit code) = code"
| "exn_str KeyboardInterrupt = []"

text \<open>\<^verbatim>\<open>isinstance(e, Exception)\<close>, what \<^verbatim>\<open>except Exception\<close> asks.\<close>

fun is_Exception :: "pyexn \<Rightarrow> bool" where
  "is_Exception (SystemExit code) = False"
| "is_Exception KeyboardInterrupt = False"
| "is_Exception e = True"

fun is_TypeError :: "pyexn \<Rightarrow> bool" where
  "is_TypeError (TypeError m) = True"
| "is_TypeError e = False"

fun is_AttributeError :: "pyexn \<Rightarrow> bool" where
  "is_AttributeError (AttributeError m) = True"
| "is_AttributeError e = False"

text \<open>\<^verbatim>\<open>callable(v)\<close>: functions are callable, and so are \<^verbatim>\<open>staticmethod\<close> objects
  (Python 3.10 and later); \<^verbatim>\<open>classmethod\<close> objects are not.\<close>

fun callable :: "pyval \<Rightarrow> bool" where
  "callable (PFunction f) = True"
| "callable (PStaticMethod f) = True"
| "callable v = False"

fun is_staticmethod :: "pyval \<Rightarrow> bool" where
  "is_staticmethod (PStaticMethod f) = True"
| "is_staticmethod v = False"

fun is_classmethod :: "pyval \<Rightarrow> bool" where
  "is_classmethod (PClassMethod f) = True"
| "is_classmethod v = False"

text \<open>\<^verbatim>\<open>name.startswith("_")\<close>\<close>

fun startswith_underscore :: "string \<Rightarrow> bool" where
  "startswith_underscore [] = False"
| "startswith_underscore (c # cs) = (c = CHR ''_'')"

text \<open>\<^verbatim>\<open>filename.endswith(extension)\<close>\<close>

definition endswith :: "string \<Rightarrow> string \<Rightarrow> bool" where
  "endswith filename extension =
     (length extension \<le> length filename \<and>
      drop (length filename - length extension) filename = extension)"

subsection \<open>Classes, instances and the process state\<close>

text \<open>
  An entry of \<^verbatim>\<open>cls.__mro__\<close>: the identity of the class object (the source compares with
  \<^verbatim>\<open>is not\<close>), its \<^verbatim>\<open>__name__\<close> and its \<^verbatim>\<open>__dict__\<close> in iteration order.
\<close>

record pybase =
  b_id :: nat
  b_name :: string
  b_dict :: "(string \<times> pyval) list"

text \<open>A parameter of \<^verbatim>\<open>inspect.signature(cls.__init__)\<close>: its name and its default,
  \<open>None\<close> standing for \<^verbatim>\<open>param.empty\<close>.\<close>

record pyparam =
  p_name :: string
  p_default :: "pyval option"

type_synonym attrs = "string \<rightharpoonup> pyval"
type_synonym kwargs = "(string \<times> pyval) list"

text \<open>
  The class handed to the hook. \<open>c_ancestors\<close> is \<^verbatim>\<open>cls.__mro__[1:]\<close>. User code that the
  hook calls is a field: \<open>c_construct\<close> is the call \<^verbatim>\<open>cls(**init_args)\<close>, which raises or
  yields the \<^verbatim>\<open>__dict__\<close> that \<^verbatim>\<open>__init__\<close> has filled; \<open>c_super_init_subclass\<close> is what
  \<^verbatim>\<open>super().__init_subclass__(**init_kwargs)\<close> resolves to for this class.
\<close>

record pyclass =
  c_id :: nat
  c_name :: string
  c_dict :: "(string \<times> pyval) list"
  c_ancestors :: "pybase list"
  c_signature :: "pyparam list"
  c_construct :: "attrs \<Rightarrow> pyexn + attrs"
  c_super_init_subclass :: "kwargs \<Rightarrow> pyexn option"

text \<open>\<^verbatim>\<open>object.__init_subclass__\<close>, which \<^verbatim>\<open>super()\<close> reaches when no other class of the
  MRO defines the hook: it does nothing, and raises when given any keyword.\<close>

definition object_init_subclass :: "kwargs \<Rightarrow> pyexn option" where
  "object_init_subclass init_kwargs =
     (if init_kwargs = [] then None
      else Some (TypeError ''__init_subclass__() takes no keyword arguments''))"

definition mro :: "pyclass \<Rightarrow> pybase list" where
  "mro cls = \<lparr>b_id = c_id cls, b_name = c_name cls, b_dict = c_dict cls\<rparr> # c_ancestors cls"

record pyinst =
  i_class :: pyclass
  i_dict :: attrs

text \<open>An entry of \<^verbatim>\<open>sys.modules\<close>: the module object of a file, given by its attributes, or
  the instance that the hook has put in its place.\<close>

datatype modentry = ModuleObj "(string \<times> pyval) list" | InstanceRef nat

text \<open>What a file holds: nothing yet (just opened for writing), or a pickle.\<close>

datatype filedata =
    EmptyFile
  | PickledInstance pyclass attrs
  | PickledValue pyval

record pystate =
  modules :: "string \<rightharpoonup> modentry"
  cache :: "string \<rightharpoonup> nat"
  heap :: "nat \<Rightarrow> pyinst"
  next_addr :: nat
  recursion_limit :: nat
  files :: "string \<rightharpoonup> filedata"
  dirs :: "string \<rightharpoonup> string list"

subsection \<open>Attribute lookup\<close>

text \<open>Lookup of a name in the dictionaries of an MRO, first hit wins.\<close>

fun mro_lookup :: "pybase list \<Rightarrow> string \<Rightarrow> pyval option" where
  "mro_lookup [] name = None"
| "mro_lookup (b # bs) name =
     (case map_of (b_dict b) name of Some v \<Rightarrow> Some v | None \<Rightarrow> mro_lookup bs name)"

text \<open>\<^verbatim>\<open>cls.name\<close> on a class object.\<close>

definition type_getattr :: "pyclass \<Rightarrow> string \<Rightarrow> pyval option" where
  "type_getattr cls name = mro_lookup (mro cls) name"

text \<open>
  \<^verbatim>\<open>object.__getattribute__(self, name)\<close>, the normal lookup: the instance's \<^verbatim>\<open>__dict__\<close>, then
  the classes of the MRO; \<open>None\<close> is its \<^verbatim>\<open>AttributeError\<close>. The value is returned as
  stored (the binding of methods to the instance is not modelled).
\<close>

definition object_getattribute :: "pyinst \<Rightarrow> string \<Rightarrow> pyval option" where
  "object_getattribute self name =
     (case i_dict self name of
        Some v \<Rightarrow> Some v
      | None \<Rightarrow> type_getattr (i_class self) name)"

definition no_attribute :: "pyinst \<Rightarrow> string \<Rightarrow> pyexn" where
  "no_attribute self name =
     AttributeError (quoted (c_name (i_class self)) @ '' object has no attribute '' @ quoted name)"

text \<open>
  \<^verbatim>\<open>FileAsClass.__getattribute__\<close>. \<^verbatim>\<open>hasattr(self, name)\<close> and \<^verbatim>\<open>getattr(self, name)\<close>
  look the attribute up through the type's \<^verbatim>\<open>__getattribute__\<close>, which is this very method,
  so each of them is a recursive call. The first argument is the number of frames left before
  the interpreter raises \<^verbatim>\<open>RecursionError\<close>. \<^verbatim>\<open>hasattr\<close> turns an \<^verbatim>\<open>AttributeError\<close>
  into \<^verbatim>\<open>False\<close> and lets every other exception through.
\<close>

fun getattribute :: "nat \<Rightarrow> pyinst \<Rightarrow> string \<Rightarrow> pyexn + pyval" where
  "getattribute 0 self name = Inl RecursionError"
| "getattribute (Suc depth) self name =
     (case object_getattribute self name of
        Some v \<Rightarrow> Inr v
      | None \<Rightarrow>
          (case getattribute depth self name of
             Inl e \<Rightarrow> if is_AttributeError e then Inl (no_attribute self name) else Inl e
           | Inr found \<Rightarrow>
               (case getattribute depth self name of
                  Inl e \<Rightarrow> Inl e
                | Inr (PTuple vs) \<Rightarrow>
                    (case getattribute depth self name of
                       Inl e \<Rightarrow> Inl e
                     | Inr (PTuple []) \<Rightarrow> Inl (IndexError ''tuple index out of range'')
                     | Inr (PTuple (w # ws)) \<Rightarrow> Inr w
                     | Inr other \<Rightarrow> Inl (TypeError ''object is not subscriptable''))
                | Inr other \<Rightarrow> getattribute depth self name)))"

text \<open>\<^verbatim>\<open>getattr(module, attr, None)\<close>: the default replaces an \<^verbatim>\<open>AttributeError\<close> only.\<close>

definition getattr_default :: "pystate \<Rightarrow> modentry \<Rightarrow> string \<Rightarrow> pyexn + pyval" where
  "getattr_default s module attr =
     (case module of
        ModuleObj d \<Rightarrow> Inr (case map_of d attr of Some v \<Rightarrow> v | None \<Rightarrow> PNone)
      | InstanceRef r \<Rightarrow>
          (case getattribute (recursion_limit s) (heap s r) attr of
             Inr v \<Rightarrow> Inr v
           | Inl e \<Rightarrow> if is_AttributeError e then Inr PNone else Inl e))"

subsection \<open>The hook \<^verbatim>\<open>__init_subclass__\<close>\<close>

text \<open>
  The loop over the constructor's parameters: the override from \<^verbatim>\<open>init_kwargs\<close>, else the
  declared default, else \<^verbatim>\<open>None\<close>. The accumulator is the dictionary \<^verbatim>\<open>init_args\<close>.
\<close>

definition init_arg :: "kwargs \<Rightarrow> pyparam \<Rightarrow> pyval" where
  "init_arg init_kwargs param =
     (case map_of init_kwargs (p_name param) of
        Some v \<Rightarrow> v
      | None \<Rightarrow> (case p_default param of Some d \<Rightarrow> d | None \<Rightarrow> PNone))"

fun build_init_args :: "pyparam list \<Rightarrow> kwargs \<Rightarrow> attrs \<Rightarrow> attrs" where
  "build_init_args [] init_kwargs init_args = init_args"
| "build_init_args (param # params) init_kwargs init_args =
     build_init_args params init_kwargs
       (init_args(p_name param \<mapsto> init_arg init_kwargs param))"

text \<open>The names of the callables of \<^verbatim>\<open>cls.__dict__\<close> that do not start with an underscore.\<close>

fun public_methods :: "(string \<times> pyval) list \<Rightarrow> string list" where
  "public_methods [] = []"
| "public_methods ((attr_name, attr_value) # items) =
     (if callable attr_value \<and> \<not> startswith_underscore attr_name
      then attr_name # public_methods items
      else public_methods items)"

text \<open>\<^verbatim>\<open>setattr(instance, name, value)\<close> stores into the instance's \<^verbatim>\<open>__dict__\<close>
  (the classes are taken to use the default \<^verbatim>\<open>object.__setattr__\<close>). The static and class
  methods of \<^verbatim>\<open>cls.__dict__\<close> are stored on the instance.\<close>

fun inject_static_class :: "(string \<times> pyval) list \<Rightarrow> attrs \<Rightarrow> attrs" where
  "inject_static_class [] d = d"
| "inject_static_class ((attr_name, attr_value) # items) d =
     inject_static_class items
       (if is_staticmethod attr_value then d(attr_name \<mapsto> attr_value)
        else if is_classmethod attr_value then d(attr_name \<mapsto> attr_value)
        else d)"

definition module_attr_names :: "string list" where
  "module_attr_names = [''__name__'', ''__package__'', ''__loader__'', ''__spec__'', ''__file__'']"

fun copy_module_attrs :: "pystate \<Rightarrow> modentry \<Rightarrow> string list \<Rightarrow> attrs \<Rightarrow> pyexn + attrs" where
  "copy_module_attrs s module [] d = Inr d"
| "copy_module_attrs s module (attr # rest) d =
     (case getattr_default s module attr of
        Inl e \<Rightarrow> Inl e
      | Inr v \<Rightarrow> copy_module_attrs s module rest (d(attr \<mapsto> v)))"

text \<open>The inner loop of the MRO walk, over the items of one ancestor's \<^verbatim>\<open>__dict__\<close>.\<close>

fun copy_public_callables :: "(string \<times> pyval) list \<Rightarrow> attrs \<Rightarrow> attrs" where
  "copy_public_callables [] d = d"
| "copy_public_callables ((method_name, method_value) # items) d =
     copy_public_callables items
       (if callable method_value \<and> \<not> startswith_underscore method_name
        then d(method_name \<mapsto> method_value)
        else d)"

text \<open>The outer loop, over \<^verbatim>\<open>cls.__mro__\<close>, skipping the entry that is \<^verbatim>\<open>cls\<close> itself.\<close>

fun mro_walk :: "nat \<Rightarrow> pybase list \<Rightarrow> attrs \<Rightarrow> attrs" where
  "mro_walk cls_id [] d = d"
| "mro_walk cls_id (base_cls # rest) d =
     mro_walk cls_id rest
       (if b_id base_cls \<noteq> cls_id then copy_public_callables (b_dict base_cls) d else d)"

text \<open>
  Everything the hook does to the new instance between its construction and its registration.
  \<open>r\<close> is the address of the instance and \<open>d\<close> the \<^verbatim>\<open>__dict__\<close> left by \<^verbatim>\<open>__init__\<close>.
\<close>

definition decorate :: "pystate \<Rightarrow> pyclass \<Rightarrow> modentry \<Rightarrow> nat \<Rightarrow> attrs \<Rightarrow> pyexn + attrs" where
  "decorate s cls module r d =
     (let d1 = inject_static_class (c_dict cls) d;
          d2 = d1(''__all__'' \<mapsto> PList (map PStr (public_methods (c_dict cls) @ [''instance''])));
          d3 = d2(''instance'' \<mapsto> PRef r)
      in case copy_module_attrs s module module_attr_names d3 of
           Inl e \<Rightarrow> Inl e
         | Inr d4 \<Rightarrow> Inr (mro_walk (c_id cls) (mro cls) d4))"

text \<open>
  The hook. \<open>caller_name\<close> is \<^verbatim>\<open>caller_frame.f_globals.get('__name__')\<close>. The result is the
  exception raised or the address returned, with the process state the call leaves behind.
\<close>

definition init_subclass ::
  "pyclass \<Rightarrow> kwargs \<Rightarrow> string option \<Rightarrow> pystate \<Rightarrow> (pyexn + nat) \<times> pystate" where
  "init_subclass cls init_kwargs caller_name s =
     (case c_super_init_subclass cls init_kwargs of
        Some e \<Rightarrow> (Inl e, s)
      | None \<Rightarrow>
     (case caller_name of
        None \<Rightarrow> (Inl (RuntimeError ''Cannot determine module name from caller's frame.''), s)
      | Some module_name \<Rightarrow>
     (case modules s module_name of
        None \<Rightarrow> (Inl (KeyError module_name), s)
      | Some module \<Rightarrow>
     (case cache s module_name of
        Some cached \<Rightarrow> (Inr cached, s)
      | None \<Rightarrow>
     (case c_construct cls (build_init_args (drop 1 (c_signature cls)) init_kwargs Map.empty) of
        Inl e \<Rightarrow>
          (if is_TypeError e
           then (Inl (TransformationError
                        (''Error instantiating '' @ c_name cls @ '': '' @ exn_str e) e), s)
           else (Inl e, s))
      | Inr d \<Rightarrow>
     (let instance = next_addr s in
      case decorate s cls module instance d of
        Inl e \<Rightarrow> (Inl e, s)
      | Inr d' \<Rightarrow>
          (Inr instance,
           s\<lparr>heap := (heap s)(instance := \<lparr>i_class = cls, i_dict = d'\<rparr>),
             next_addr := Suc instance,
             modules := (modules s)(module_name \<mapsto> InstanceRef instance),
             cache := (cache s)(module_name \<mapsto> instance)\<rparr>)))))))"

text \<open>\<^verbatim>\<open>load_from_cache\<close>\<close>

definition load_from_cache :: "string \<Rightarrow> pystate \<Rightarrow> nat option" where
  "load_from_cache module_name s = cache s module_name"

text \<open>A run of the hook for a list of class definitions, whatever each of them returns.\<close>

fun run_definitions :: "(pyclass \<times> kwargs \<times> string option) list \<Rightarrow> pystate \<Rightarrow> pystate" where
  "run_definitions [] s = s"
| "run_definitions ((cls, init_kwargs, caller_name) # rest) s =
     run_definitions rest (snd (init_subclass cls init_kwargs caller_name s))"

subsection \<open>Pickling: \<^verbatim>\<open>__getstate__\<close>, \<^verbatim>\<open>__setstate__\<close>, \<^verbatim>\<open>save_to_file\<close>, \<^verbatim>\<open>load_from_file\<close>\<close>

definition getstate :: "pyinst \<Rightarrow> attrs" where
  "getstate self = i_dict self"

definition setstate :: "pyinst \<Rightarrow> attrs \<Rightarrow> pyinst" where
  "setstate self state = self\<lparr>i_dict := i_dict self ++ state\<rparr>"

text \<open>
  The \<^verbatim>\<open>pickle\<close> module is not part of the repository. It is taken in its simplest form:
  dumping an instance records its class and what \<^verbatim>\<open>__getstate__\<close> returns, loading makes a
  new object of that class and hands the recorded state to \<^verbatim>\<open>__setstate__\<close>; values are
  kept as they are.
\<close>

definition pickle_dump :: "pystate \<Rightarrow> pyval \<Rightarrow> filedata" where
  "pickle_dump s v =
     (case v of
        PRef r \<Rightarrow> PickledInstance (i_class (heap s r)) (getstate (heap s r))
      | _ \<Rightarrow> PickledValue v)"

definition pickle_load :: "pystate \<Rightarrow> filedata \<Rightarrow> pyexn + pyval \<times> pystate" where
  "pickle_load s data =
     (case data of
        EmptyFile \<Rightarrow> Inl EOFError
      | PickledValue v \<Rightarrow> Inr (v, s)
      | PickledInstance cls state \<Rightarrow>
          (let r = next_addr s;
               obj = setstate \<lparr>i_class = cls, i_dict = Map.empty\<rparr> state
           in Inr (PRef r, s\<lparr>heap := (heap s)(r := obj), next_addr := Suc r\<rparr>)))"

definition type_no_attribute :: "pyclass \<Rightarrow> string \<Rightarrow> pyexn" where
  "type_no_attribute cls name =
     AttributeError (''type object '' @ quoted (c_name cls) @ '' has no attribute '' @ quoted name)"

text \<open>
  \<^verbatim>\<open>save_to_file\<close> is a class method: \<^verbatim>\<open>cls.instance\<close> is looked up on the class object.
  \<^verbatim>\<open>open(filename, 'wb')\<close> has created or emptied the file before that lookup happens.
\<close>

definition save_to_file :: "pyclass \<Rightarrow> string \<Rightarrow> pystate \<Rightarrow> (pyexn + unit) \<times> pystate" where
  "save_to_file cls filename s =
     (let s1 = s\<lparr>files := (files s)(filename \<mapsto> EmptyFile)\<rparr> in
      case type_getattr cls ''instance'' of
        None \<Rightarrow> (Inl (type_no_attribute cls ''instance''), s1)
      | Some v \<Rightarrow> (Inr (), s1\<lparr>files := (files s1)(filename \<mapsto> pickle_dump s1 v)\<rparr>))"

text \<open>\<^verbatim>\<open>load_from_file\<close> assigns to \<^verbatim>\<open>cls.instance\<close>: the class object changes, and is
  returned with the state.\<close>

definition load_from_file ::
  "pyclass \<Rightarrow> string \<Rightarrow> pystate \<Rightarrow> (pyexn + unit) \<times> pyclass \<times> pystate" where
  "load_from_file cls filename s =
     (case files s filename of
        None \<Rightarrow> (Inl (FileNotFoundError filename), cls, s)
      | Some data \<Rightarrow>
          (case pickle_load s data of
             Inl e \<Rightarrow> (Inl e, cls, s)
           | Inr (v, s') \<Rightarrow>
               (Inr (), cls\<lparr>c_dict := AList.update ''instance'' v (c_dict cls)\<rparr>, s')))"

subsection \<open>\<^verbatim>\<open>scan_for_plugins\<close>\<close>

text \<open>\<^verbatim>\<open>filename[:-3]\<close>\<close>

definition module_name_of :: "string \<Rightarrow> string" where
  "module_name_of filename = take (length filename - 3) filename"

text \<open>What stripping the extension would give: \<^verbatim>\<open>filename[:-len(extension)]\<close> for a
  non-empty extension, the name itself for an empty one.\<close>

definition strip_extension :: "string \<Rightarrow> string \<Rightarrow> string" where
  "strip_extension filename extension = take (length filename - length extension) filename"

text \<open>
  \<^verbatim>\<open>FileAsClass(module)\<close>: the class defines neither \<^verbatim>\<open>__new__\<close> nor \<^verbatim>\<open>__init__\<close>, so
  \<^verbatim>\<open>object\<close> builds the instance, and it refuses any argument.
\<close>

definition FileAsClass_call :: "modentry list \<Rightarrow> pyexn option" where
  "FileAsClass_call args =
     (if args = [] then None else Some (TypeError ''FileAsClass() takes no arguments''))"

definition plugin_failure :: "string \<Rightarrow> pyexn \<Rightarrow> string" where
  "plugin_failure module_name e = ''Failed to load plugin '' @ module_name @ '': '' @ exn_str e"

text \<open>
  \<^verbatim>\<open>__import__\<close> is a parameter: given the module name it raises or returns the module, and
  changes the process state (the file's class definitions run the hook). The loop carries the
  lines printed so far and the state. The handler is \<^verbatim>\<open>except Exception\<close>: an exception
  of the \<^verbatim>\<open>try\<close> block that is an \<^verbatim>\<open>Exception\<close> is printed and the loop goes on, any
  other leaves the loop and the function. The result is the exception that leaves the loop if
  any, the lines printed and the state.
\<close>

type_synonym importer = "string \<Rightarrow> pystate \<Rightarrow> (pyexn + modentry) \<times> pystate"

fun scan_entries ::
  "importer \<Rightarrow> string \<Rightarrow> string list \<Rightarrow> string list \<times> pystate
     \<Rightarrow> pyexn option \<times> string list \<times> pystate" where
  "scan_entries imp extension [] (out, s) = (None, out, s)"
| "scan_entries imp extension (filename # rest) (out, s) =
     (if endswith filename extension then
        (let module_name = module_name_of filename in
         case imp module_name s of
           (Inl e, s1) \<Rightarrow>
             if is_Exception e
             then scan_entries imp extension rest (out @ [plugin_failure module_name e], s1)
             else (Some e, out, s1)
         | (Inr module, s1) \<Rightarrow>
             (case FileAsClass_call [module] of
                Some e \<Rightarrow>
                  if is_Exception e
                  then scan_entries imp extension rest (out @ [plugin_failure module_name e], s1)
                  else (Some e, out, s1)
              | None \<Rightarrow> scan_entries imp extension rest (out, s1)))
      else scan_entries imp extension rest (out, s))"

text \<open>\<^verbatim>\<open>os.listdir\<close> raises for a directory that does not exist.\<close>

definition scan_for_plugins ::
  "importer \<Rightarrow> string \<Rightarrow> string \<Rightarrow> pystate \<Rightarrow> pyexn option \<times> string list \<times> pystate" where
  "scan_for_plugins imp directory extension s =
     (case dirs s directory of
        None \<Rightarrow> (Some (FileNotFoundError directory), [], s)
      | Some entries \<Rightarrow> scan_entries imp extension entries ([], s))"

subsection \<open>The example of the repository and other concrete inputs\<close>

text \<open>The \<^verbatim>\<open>__dict__\<close> of \<^verbatim>\<open>FileAsClass\<close> as the source declares it, and \<^verbatim>\<open>object\<close>.\<close>

definition FileAsClass_base :: pybase where
  "FileAsClass_base =
     \<lparr>b_id = 1, b_name = ''FileAsClass'',
      b_dict =
        [(''__module__'', PStr ''buildeasy.buildeasy''),
         (''_cache'', POpaque ''dict''),
         (''__init_subclass__'', PClassMethod ''FileAsClass.__init_subclass__''),
         (''add_dynamic_method'', PFunction ''FileAsClass.add_dynamic_method''),
         (''load_from_cache'', PStaticMethod ''FileAsClass.load_from_cache''),
         (''__getstate__'', PFunction ''FileAsClass.__getstate__''),
         (''__setstate__'', PFunction ''FileAsClass.__setstate__''),
         (''save_to_file'', PClassMethod ''FileAsClass.save_to_file''),
         (''load_from_file'', PClassMethod ''FileAsClass.load_from_file''),
         (''scan_for_plugins'', PClassMethod ''FileAsClass.scan_for_plugins''),
         (''__getattribute__'', PFunction ''FileAsClass.__getattribute__''),
         (''__dict__'', POpaque ''attribute''),
         (''__weakref__'', POpaque ''attribute''),
         (''__doc__'', PNone)]\<rparr>"

definition object_base :: pybase where
  "object_base =
     \<lparr>b_id = 0, b_name = ''object'',
      b_dict = [(''__class__'', POpaque ''attribute''), (''__init__'', POpaque ''slot wrapper'')]\<rparr>"

text \<open>\<^verbatim>\<open>my_module.py\<close>: \<^verbatim>\<open>class MyModule(FileAsClass)\<close> with
  \<^verbatim>\<open>__init__(self, name="buildeasy")\<close> storing \<^verbatim>\<open>self.name\<close>, and \<^verbatim>\<open>greet\<close>.\<close>

definition MyModule :: pyclass where
  "MyModule =
     \<lparr>c_id = 2, c_name = ''MyModule'',
      c_dict = [(''__module__'', PStr ''my_module''),
                (''__init__'', PFunction ''MyModule.__init__''),
                (''greet'', PFunction ''MyModule.greet''),
                (''__doc__'', PNone)],
      c_ancestors = [FileAsClass_base, object_base],
      c_signature = [\<lparr>p_name = ''self'', p_default = None\<rparr>,
                     \<lparr>p_name = ''name'', p_default = Some (PStr ''buildeasy'')\<rparr>],
      c_construct = (\<lambda>init_args.
         Inr [''name'' \<mapsto> (case init_args ''name'' of Some v \<Rightarrow> v | None \<Rightarrow> PStr ''buildeasy'')]),
      c_super_init_subclass = object_init_subclass\<rparr>"

definition blank :: pyinst where
  "blank = \<lparr>i_class = MyModule, i_dict = Map.empty\<rparr>"

text \<open>A process in which \<^verbatim>\<open>my_module\<close> is being imported and nothing has been cached.\<close>

definition process0 :: pystate where
  "process0 =
     \<lparr>modules = [''my_module'' \<mapsto>
                   ModuleObj [(''__name__'', PStr ''my_module''),
                              (''__file__'', PStr ''my_module.py'')]],
      cache = Map.empty,
      heap = (\<lambda>a. blank),
      next_addr = 0,
      recursion_limit = 1000,
      files = Map.empty,
      dirs = [''plugins'' \<mapsto> [''broken.py'', ''notes.txt'', ''my_module.py''],
              ''tools'' \<mapsto> [''quits.py'', ''my_module.py'']]\<rparr>"

text \<open>A class whose constructor raises \<^verbatim>\<open>ValueError\<close>, and one whose constructor takes a
  positional-only parameter, so that the keyword call raises \<^verbatim>\<open>TypeError\<close>.\<close>

definition Picky :: pyclass where
  "Picky = MyModule\<lparr>c_id := 3, c_name := ''Picky'',
     c_construct := (\<lambda>init_args. Inl (OtherError ''ValueError'' ''name must not be empty''))\<rparr>"

definition Positional :: pyclass where
  "Positional = MyModule\<lparr>c_id := 4, c_name := ''Positional'',
     c_construct := (\<lambda>init_args. Inl (TypeError
        ''Positional.__init__() got some positional-only arguments passed as keyword arguments''))\<rparr>"

text \<open>\<^verbatim>\<open>class Both(FileAsClass, Near, Far)\<close> where \<^verbatim>\<open>Near\<close> and \<^verbatim>\<open>Far\<close> both define
  \<^verbatim>\<open>hello\<close>.\<close>

definition Near :: pybase where
  "Near = \<lparr>b_id = 10, b_name = ''Near'', b_dict = [(''hello'', PFunction ''Near.hello'')]\<rparr>"

definition Far :: pybase where
  "Far = \<lparr>b_id = 11, b_name = ''Far'', b_dict = [(''hello'', PFunction ''Far.hello'')]\<rparr>"

definition Both :: pyclass where
  "Both = MyModule\<lparr>c_id := 12, c_name := ''Both'',
     c_ancestors := [FileAsClass_base, Near, Far, object_base]\<rparr>"

text \<open>
  An \<^verbatim>\<open>__import__\<close> for the directory of \<open>process0\<close>: \<^verbatim>\<open>my_module\<close> is put into
  \<^verbatim>\<open>sys.modules\<close> and its class definition runs the hook; \<^verbatim>\<open>broken\<close> raises; anything
  else is not found.
\<close>

definition example_import :: importer where
  "example_import module_name s =
     (if module_name = ''my_module'' then
        (case init_subclass MyModule [] (Some ''my_module'') s of
           (Inl e, s1) \<Rightarrow> (Inl e, s1)
         | (Inr r, s1) \<Rightarrow> (Inr (InstanceRef r), s1))
      else if module_name = ''broken'' then
        (Inl (OtherError ''ValueError'' ''broken plugin''), s)
      else (Inl (OtherError ''ModuleNotFoundError'' (''No module named '' @ quoted module_name)), s))"

text \<open>The same with a module \<^verbatim>\<open>quits\<close> that calls \<^verbatim>\<open>sys.exit(3)\<close> when it is
  imported.\<close>

definition exiting_import :: importer where
  "exiting_import module_name s =
     (if module_name = ''quits'' then (Inl (SystemExit ''3''), s)
      else example_import module_name s)"

subsection \<open>The invariant of the two tables\<close>

text \<open>Whatever the Registry holds for an identifier, \<^verbatim>\<open>sys.modules\<close> holds for it too.\<close>

definition registry_consistent :: "pystate \<Rightarrow> bool" where
  "registry_consistent s = (\<forall>k r. cache s k = Some r \<longrightarrow> modules s k = Some (InstanceRef r))"

text \<open>The process after \<^verbatim>\<open>my_module.py\<close> has defined its class.\<close>

definition process1 :: pystate where
  "process1 = snd (init_subclass MyModule [] (Some ''my_module'') process0)"

section \<open>Properties of the hook\<close>

subsection \<open>What a call of the hook can do to the state\<close>

lemma init_subclass_cases:
  assumes "init_subclass cls kw cn s = (res, s')"
  shows "s' = s \<or>
     (\<exists>n m d d'. cn = Some n \<and> modules s n = Some m \<and> cache s n = None \<and> res = Inr (next_addr s) \<and>
        c_construct cls (build_init_args (drop 1 (c_signature cls)) kw Map.empty) = Inr d \<and>
        decorate s cls m (next_addr s) d = Inr d' \<and>
        s' = s\<lparr>heap := (heap s)(next_addr s := \<lparr>i_class = cls, i_dict = d'\<rparr>),
             next_addr := Suc (next_addr s),
             modules := (modules s)(n \<mapsto> InstanceRef (next_addr s)),
             cache := (cache s)(n \<mapsto> next_addr s)\<rparr>)"
  using assms unfolding init_subclass_def
  by (auto split: option.splits sum.splits if_splits simp: Let_def)

lemma init_subclass_cache_stable:
  assumes "cache s k = Some r"
  shows "cache (snd (init_subclass cls kw cn s)) k = Some r"
proof -
  obtain res s' where eq: "init_subclass cls kw cn s = (res, s')" by (cases "init_subclass cls kw cn s")
  from init_subclass_cases[OF eq] assms show ?thesis unfolding eq by auto
qed

lemma init_subclass_consistent:
  assumes "registry_consistent s"
  shows "registry_consistent (snd (init_subclass cls kw cn s))"
proof -
  obtain res s' where eq: "init_subclass cls kw cn s = (res, s')" by (cases "init_subclass cls kw cn s")
  from init_subclass_cases[OF eq] assms show ?thesis unfolding eq registry_consistent_def by auto
qed

lemma init_subclass_registers:
  assumes "registry_consistent s" "init_subclass cls kw (Some n) s = (Inr r, s')"
  shows "modules s' n = Some (InstanceRef r) \<and> cache s' n = Some r"
  using assms unfolding init_subclass_def registry_consistent_def
  by (auto split: option.splits sum.splits if_splits simp: Let_def)

lemma run_definitions_consistent:
  "registry_consistent s \<Longrightarrow> registry_consistent (run_definitions defs s)"
proof (induction defs arbitrary: s)
  case Nil
  then show ?case by simp
next
  case (Cons a defs)
  obtain cls kw cn where a: "a = (cls, kw, cn)" by (cases a)
  show ?case unfolding a using Cons by (simp add: init_subclass_consistent)
qed

lemma run_definitions_cache_stable:
  "cache s k = Some r \<Longrightarrow> cache (run_definitions defs s) k = Some r"
proof (induction defs arbitrary: s)
  case Nil
  then show ?case by simp
next
  case (Cons a defs)
  obtain cls kw cn where a: "a = (cls, kw, cn)" by (cases a)
  show ?case unfolding a using Cons by (simp add: init_subclass_cache_stable)
qed

lemma init_subclass_returns_cached:
  assumes "init_subclass cls kw (Some n) s = (Inr r', s')" "cache s n = Some r"
  shows "r' = r \<and> s' = s"
  using assms unfolding init_subclass_def
  by (auto split: option.splits)

lemma first_transformation_result:
  "fst (init_subclass MyModule [] (Some ''my_module'') process0) = Inr 0"
  by (simp add: init_subclass_def process0_def MyModule_def object_init_subclass_def decorate_def
      module_attr_names_def getattr_default_def Let_def mro_def)

lemma first_transformation_cache:
  "cache (snd (init_subclass MyModule [] (Some ''my_module'') process0)) ''my_module'' = Some 0"
  by (simp add: init_subclass_def process0_def MyModule_def object_init_subclass_def decorate_def
      module_attr_names_def getattr_default_def Let_def mro_def)

text \<open>The invariant holds when nothing is cached, and every call of the hook keeps it
  (\<open>init_subclass_consistent\<close>).\<close>

lemma empty_cache_consistent: "cache s = Map.empty \<Longrightarrow> registry_consistent s"
  by (simp add: registry_consistent_def)

lemma process0_consistent: "registry_consistent process0"
  by (simp add: registry_consistent_def process0_def)

lemma process1_consistent: "registry_consistent process1"
  unfolding process1_def by (rule init_subclass_consistent[OF process0_consistent])

lemma process1_cache: "cache process1 ''my_module'' = Some 0"
  unfolding process1_def by (rule first_transformation_cache)

subsection \<open>Idempotence\<close>

text \<open>
  Claim C1. When the Registry already holds an instance for the module identifier, the hook
  returns that very instance (the same address) and leaves the whole process state as it
  was: no instance is created, and the module table, the Registry and the heap, hence the
  cached instance, are unchanged. The call gets that far when the tables are consistent (the
  lookup in \<^verbatim>\<open>sys.modules\<close> comes before the lookup in the Registry) and
  \<^verbatim>\<open>super().__init_subclass__\<close> has returned.
\<close>

theorem transformer_idempotent:
  assumes "registry_consistent s"
      and "c_super_init_subclass cls init_kwargs = None"
      and "cache s module_name = Some instance"
  shows "init_subclass cls init_kwargs (Some module_name) s = (Inr instance, s)"
proof -
  from assms(1,3) have "modules s module_name = Some (InstanceRef instance)"
    by (simp add: registry_consistent_def)
  with assms(2,3) show ?thesis by (simp add: init_subclass_def)
qed

theorem transformer_idempotent_witness:
  "registry_consistent process1 \<and> c_super_init_subclass MyModule [] = None \<and>
   cache process1 ''my_module'' = Some 0 \<and>
   init_subclass MyModule [] (Some ''my_module'') process1 = (Inr 0, process1)"
  using transformer_idempotent[OF process1_consistent _ process1_cache, of MyModule "[]"]
    process1_consistent process1_cache
  by (simp add: MyModule_def object_init_subclass_def)

subsection \<open>The singleton invariant\<close>

text \<open>
  Claim C2. After a successful call of the hook for a module identifier, the entry of the
  module table and the entry of the Registry for that identifier are the instance returned;
  and whatever class definitions run afterwards, every later successful call for that
  identifier returns this same instance and finds both entries still referring to it: the
  identifier never gets a second instance. The tables are consistent at the start (as they
  are when the Registry is empty) and stay so.
\<close>

theorem singleton_invariant:
  assumes "registry_consistent s"
      and "init_subclass cls init_kwargs (Some module_name) s = (Inr instance, s')"
  shows "registry_consistent s' \<and>
         modules s' module_name = Some (InstanceRef instance) \<and>
         cache s' module_name = Some instance \<and>
         (\<forall>defs cls2 kwargs2 instance2 s2.
            init_subclass cls2 kwargs2 (Some module_name) (run_definitions defs s') = (Inr instance2, s2)
            \<longrightarrow> instance2 = instance \<and>
                modules s2 module_name = Some (InstanceRef instance) \<and>
                cache s2 module_name = Some instance)"
proof -
  have c: "registry_consistent s'"
    using init_subclass_consistent[OF assms(1), of cls init_kwargs "Some module_name"] assms(2)
    by simp
  have reg: "modules s' module_name = Some (InstanceRef instance) \<and> cache s' module_name = Some instance"
    by (rule init_subclass_registers[OF assms])
  have later: "instance2 = instance \<and> modules s2 module_name = Some (InstanceRef instance) \<and>
        cache s2 module_name = Some instance"
    if h: "init_subclass cls2 kwargs2 (Some module_name) (run_definitions defs s') = (Inr instance2, s2)"
    for defs cls2 kwargs2 instance2 s2
  proof -
    let ?t = "run_definitions defs s'"
    have ct: "registry_consistent ?t" by (rule run_definitions_consistent[OF c])
    have cache_t: "cache ?t module_name = Some instance"
      using reg by (simp add: run_definitions_cache_stable)
    from init_subclass_returns_cached[OF h cache_t] have eq: "instance2 = instance" "s2 = ?t" by simp_all
    from ct cache_t have "modules ?t module_name = Some (InstanceRef instance)"
      by (simp add: registry_consistent_def)
    with eq cache_t show ?thesis by simp
  qed
  from c reg later show ?thesis by blast
qed

theorem singleton_invariant_witness:
  "registry_consistent process0 \<and>
   init_subclass MyModule [] (Some ''my_module'') process0 = (Inr 0, process1) \<and>
   modules process1 ''my_module'' = Some (InstanceRef 0) \<and>
   cache process1 ''my_module'' = Some 0 \<and>
   fst (init_subclass Both [] (Some ''my_module'')
          (run_definitions [(Picky, [], Some ''other'')] process1)) = Inr 0"
proof -
  have first: "init_subclass MyModule [] (Some ''my_module'') process0 = (Inr 0, process1)"
    using first_transformation_result by (simp add: process1_def prod_eq_iff)
  note inv = singleton_invariant[OF process0_consistent first]
  have hook: "c_super_init_subclass Both [] = None"
    by (simp add: Both_def MyModule_def object_init_subclass_def)
  let ?t = "run_definitions [(Picky, [], Some ''other'')] process1"
  have c1: "cache process1 ''my_module'' = Some 0" and r1: "registry_consistent process1"
    using inv by simp_all
  have "cache ?t ''my_module'' = Some 0"
    by (rule run_definitions_cache_stable[OF c1])
  moreover have "registry_consistent ?t"
    by (rule run_definitions_consistent[OF r1])
  ultimately have again: "init_subclass Both [] (Some ''my_module'') ?t = (Inr 0, ?t)"
    using hook by (simp add: init_subclass_def registry_consistent_def)
  from inv again have "fst (init_subclass Both [] (Some ''my_module'') ?t) = Inr 0" by simp
  with inv first process0_consistent show ?thesis by simp
qed

subsection \<open>Failures\<close>

text \<open>
  Claim C3. When the caller's frame gives no module name, the hook raises the
  \<^verbatim>\<open>RuntimeError\<close> of the source (the ConfigurationError of the specification) and the
  process state, module table and Registry included, is what it was before the call.
\<close>

theorem unresolved_caller_fails:
  assumes "c_super_init_subclass cls init_kwargs = None"
  shows "init_subclass cls init_kwargs None s =
           (Inl (RuntimeError ''Cannot determine module name from caller's frame.''), s)"
  using assms by (simp add: init_subclass_def)

theorem unresolved_caller_fails_witness:
  "c_super_init_subclass MyModule [] = None \<and>
   init_subclass MyModule [] None process0 =
     (Inl (RuntimeError ''Cannot determine module name from caller's frame.''), process0)"
  using unresolved_caller_fails[of MyModule "[]" process0]
  by (simp add: MyModule_def object_init_subclass_def)

text \<open>
  Claim C4, as the code has it. The handler around the instantiation is
  \<^verbatim>\<open>except TypeError\<close>: a \<^verbatim>\<open>TypeError\<close> raised by the instantiation is wrapped in a
  \<^verbatim>\<open>TransformationError\<close> raised from it, any other exception leaves the hook as it is;
  in both cases the process state is unchanged, so every Registry entry present before the
  failure is still there.
\<close>

theorem construction_failure:
  assumes "c_super_init_subclass cls init_kwargs = None"
      and "modules s module_name = Some module"
      and "cache s module_name = None"
      and "c_construct cls (build_init_args (drop 1 (c_signature cls)) init_kwargs Map.empty) = Inl e"
  shows "init_subclass cls init_kwargs (Some module_name) s =
           (if is_TypeError e
            then (Inl (TransformationError
                         (''Error instantiating '' @ c_name cls @ '': '' @ exn_str e) e), s)
            else (Inl e, s))"
  using assms by (simp add: init_subclass_def)

theorem construction_failure_witness:
  "c_super_init_subclass Positional [] = None \<and>
   modules process0 ''my_module'' \<noteq> None \<and>
   cache process0 ''my_module'' = None \<and>
   init_subclass Positional [] (Some ''my_module'') process0 =
     (Inl (TransformationError
        (''Error instantiating Positional: '' @
         ''Positional.__init__() got some positional-only arguments passed as keyword arguments'')
        (TypeError
         ''Positional.__init__() got some positional-only arguments passed as keyword arguments'')),
      process0)"
proof -
  have hook: "c_super_init_subclass Positional [] = None"
    by (simp add: Positional_def MyModule_def object_init_subclass_def)
  have m: "modules process0 ''my_module'' =
      Some (ModuleObj [(''__name__'', PStr ''my_module''), (''__file__'', PStr ''my_module.py'')])"
    by (simp add: process0_def)
  have c: "cache process0 ''my_module'' = None" by (simp add: process0_def)
  have e: "c_construct Positional (build_init_args (drop 1 (c_signature Positional)) [] Map.empty)
     = Inl (TypeError
         ''Positional.__init__() got some positional-only arguments passed as keyword arguments'')"
    by (simp add: Positional_def)
  from construction_failure[OF hook m c e] hook m c show ?thesis
    by (simp add: Positional_def)
qed

text \<open>The claim as stated, "whenever the instantiation raises, the hook raises a
  TransformationError", fails for a constructor that raises \<^verbatim>\<open>ValueError\<close>.\<close>

theorem construction_failure_not_wrapped:
  "c_construct Picky (build_init_args (drop 1 (c_signature Picky)) [] Map.empty)
     = Inl (OtherError ''ValueError'' ''name must not be empty'') \<and>
   init_subclass Picky [] (Some ''my_module'') process0
     = (Inl (OtherError ''ValueError'' ''name must not be empty''), process0)"
  by (simp add: init_subclass_def Picky_def MyModule_def object_init_subclass_def process0_def)

subsection \<open>Construction arguments\<close>

text \<open>The loop itself takes the override, else the default, else \<^verbatim>\<open>None\<close>.\<close>

lemma build_init_args_other:
  "name \<notin> set (map p_name params) \<Longrightarrow>
     build_init_args params init_kwargs init_args name = init_args name"
  by (induction params arbitrary: init_args) auto

lemma build_init_args_value:
  "param \<in> set params \<Longrightarrow> distinct (map p_name params) \<Longrightarrow>
     build_init_args params init_kwargs init_args (p_name param) =
       Some (case map_of init_kwargs (p_name param) of
               Some v \<Rightarrow> v
             | None \<Rightarrow> (case p_default param of Some d \<Rightarrow> d | None \<Rightarrow> PNone))"
proof (induction params arbitrary: init_args)
  case Nil
  then show ?case by simp
next
  case (Cons p ps)
  show ?case
  proof (cases "param = p")
    case True
    with Cons.prems have "p_name p \<notin> set (map p_name ps)" by simp
    then show ?thesis unfolding True
      by (simp add: build_init_args_other init_arg_def)
  next
    case False
    with Cons show ?thesis by simp
  qed
qed

text \<open>With no override the instance of \<^verbatim>\<open>my_module.py\<close> gets the declared default.\<close>

lemma my_module_default_name:
  "i_dict (heap process1 0) ''name'' = Some (PStr ''buildeasy'')"
  by (simp add: process1_def init_subclass_def process0_def MyModule_def object_init_subclass_def
      decorate_def module_attr_names_def getattr_default_def Let_def mro_def
      FileAsClass_base_def object_base_def init_arg_def)

text \<open>A class whose \<^verbatim>\<open>super().__init_subclass__\<close> is the one of \<^verbatim>\<open>object\<close> cannot be given
  any keyword: the hook raises before it looks at anything else.\<close>

lemma keywords_rejected:
  assumes "c_super_init_subclass cls = object_init_subclass" and "init_kwargs \<noteq> []"
  shows "init_subclass cls init_kwargs caller_name s =
           (Inl (TypeError ''__init_subclass__() takes no keyword arguments''), s)"
  using assms by (simp add: init_subclass_def object_init_subclass_def)

text \<open>
  Claim C5. The value passed at instantiation is the caller's override when there is one.
  The hook does not get that far: it hands every keyword to \<^verbatim>\<open>super().__init_subclass__\<close>
  first, and for a class such as \<^verbatim>\<open>MyModule\<close> that is \<^verbatim>\<open>object.__init_subclass__\<close>,
  which raises \<^verbatim>\<open>TypeError\<close> on any keyword. With the override \<^verbatim>\<open>name="plugin"\<close> the
  class is never instantiated.
\<close>

theorem override_rejected:
  "init_subclass MyModule [(''name'', PStr ''plugin'')] (Some ''my_module'') process0 =
     (Inl (TypeError ''__init_subclass__() takes no keyword arguments''), process0)"
  by (simp add: init_subclass_def MyModule_def object_init_subclass_def)

subsection \<open>The walk over the ancestors\<close>

lemma copy_public_callables_unwritten:
  "\<forall>v. (m, v) \<in> set items \<longrightarrow> \<not> callable v \<Longrightarrow> copy_public_callables items d m = d m"
  by (induction items arbitrary: d) auto

lemma copy_public_callables_underscore:
  "startswith_underscore m \<Longrightarrow> copy_public_callables items d m = d m"
  by (induction items arbitrary: d) auto

lemma copy_public_callables_written:
  "(m, v) \<in> set items \<Longrightarrow> distinct (map fst items) \<Longrightarrow> callable v \<Longrightarrow>
   \<not> startswith_underscore m \<Longrightarrow> copy_public_callables items d m = Some v"
proof (induction items arbitrary: d)
  case Nil
  then show ?case by simp
next
  case (Cons a items)
  obtain k w where a: "a = (k, w)" by (cases a)
  show ?case
  proof (cases "(m, v) \<in> set items")
    case True
    with Cons show ?thesis unfolding a by simp
  next
    case False
    with Cons.prems have kv: "k = m" "w = v" by (auto simp: a)
    from Cons.prems have "m \<notin> fst ` set items" by (auto simp: a kv)
    then have "\<forall>u. (m, u) \<in> set items \<longrightarrow> \<not> callable u" by force
    then show ?thesis using Cons.prems
      by (simp add: a kv copy_public_callables_unwritten)
  qed
qed

lemma mro_walk_append:
  "mro_walk cls_id (xs @ ys) d = mro_walk cls_id ys (mro_walk cls_id xs d)"
  by (induction xs arbitrary: d) auto

lemma mro_walk_unwritten:
  "\<forall>base \<in> set bases. b_id base \<noteq> cls_id \<longrightarrow> (\<forall>v. (m, v) \<in> set (b_dict base) \<longrightarrow> \<not> callable v)
   \<Longrightarrow> mro_walk cls_id bases d m = d m"
  by (induction bases arbitrary: d) (auto simp: copy_public_callables_unwritten)

lemma mro_walk_last_writer:
  assumes "bases = before @ B # post"
      and "b_id B \<noteq> cls_id"
      and "(m, fb) \<in> set (b_dict B)" "distinct (map fst (b_dict B))"
      and "callable fb" "\<not> startswith_underscore m"
      and "\<forall>base \<in> set post. b_id base \<noteq> cls_id \<longrightarrow>
              (\<forall>v. (m, v) \<in> set (b_dict base) \<longrightarrow> \<not> callable v)"
  shows "mro_walk cls_id bases d m = Some fb"
proof -
  have "mro_walk cls_id bases d =
          mro_walk cls_id post (copy_public_callables (b_dict B) (mro_walk cls_id before d))"
    using assms(1,2) by (simp add: mro_walk_append)
  then show ?thesis
    using assms by (simp add: mro_walk_unwritten copy_public_callables_written)
qed

lemma init_subclass_fresh_dict:
  assumes "init_subclass cls kw (Some n) s = (Inr r, s')" "cache s n = None"
  shows "\<exists>d. i_dict (heap s' r) = mro_walk (c_id cls) (mro cls) d"
  using assms unfolding init_subclass_def decorate_def
  by (auto split: option.splits sum.splits if_splits simp: Let_def)

text \<open>
  Claim C6. Let \<open>A\<close> come before \<open>B\<close> among the ancestors of the class (its MRO without the
  class itself), both defining a callable under the same name that does not start with an
  underscore, and let no ancestor after \<open>B\<close> define a callable under that name. Then the
  attribute of the new instance under that name is \<open>B\<close>'s callable: the last one written
  during the walk.
\<close>

theorem ancestor_merge_last_write_wins:
  assumes "init_subclass cls init_kwargs (Some module_name) s = (Inr instance, s')"
      and "cache s module_name = None"
      and "c_ancestors cls = pre @ A # mid @ B # post"
      and "b_id A \<noteq> c_id cls" and "b_id B \<noteq> c_id cls"
      and "(method_name, fa) \<in> set (b_dict A)" and "callable fa"
      and "(method_name, fb) \<in> set (b_dict B)" and "callable fb"
      and "distinct (map fst (b_dict B))"
      and "\<not> startswith_underscore method_name"
      and "\<forall>base \<in> set post. b_id base \<noteq> c_id cls \<longrightarrow>
              (\<forall>v. (method_name, v) \<in> set (b_dict base) \<longrightarrow> \<not> callable v)"
  shows "i_dict (heap s' instance) method_name = Some fb"
proof -
  obtain d where d: "i_dict (heap s' instance) = mro_walk (c_id cls) (mro cls) d"
    using init_subclass_fresh_dict[OF assms(1,2)] by blast
  have "mro cls = (\<lparr>b_id = c_id cls, b_name = c_name cls, b_dict = c_dict cls\<rparr> # pre @ A # mid) @ B # post"
    using assms(3) by (simp add: mro_def)
  from mro_walk_last_writer[OF this assms(5) assms(8) assms(10) assms(9) assms(11) assms(12)]
  show ?thesis by (simp add: d)
qed

theorem ancestor_merge_last_write_wins_witness:
  "fst (init_subclass Both [] (Some ''my_module'') process0) = Inr 0 \<and>
   cache process0 ''my_module'' = None \<and>
   c_ancestors Both = [FileAsClass_base] @ Near # [] @ Far # [object_base] \<and>
   (''hello'', PFunction ''Near.hello'') \<in> set (b_dict Near) \<and>
   (''hello'', PFunction ''Far.hello'') \<in> set (b_dict Far) \<and>
   i_dict (heap (snd (init_subclass Both [] (Some ''my_module'') process0)) 0) ''hello''
     = Some (PFunction ''Far.hello'')"
proof -
  have res: "fst (init_subclass Both [] (Some ''my_module'') process0) = Inr 0"
    by (simp add: init_subclass_def process0_def Both_def MyModule_def object_init_subclass_def
        decorate_def module_attr_names_def getattr_default_def Let_def mro_def)
  then have run: "init_subclass Both [] (Some ''my_module'') process0 =
      (Inr 0, snd (init_subclass Both [] (Some ''my_module'') process0))"
    by (simp add: prod_eq_iff)
  have fresh: "cache process0 ''my_module'' = None" by (simp add: process0_def)
  have anc: "c_ancestors Both = [FileAsClass_base] @ Near # [] @ Far # [object_base]"
    by (simp add: Both_def)
  have "i_dict (heap (snd (init_subclass Both [] (Some ''my_module'') process0)) 0) ''hello''
     = Some (PFunction ''Far.hello'')"
    by (rule ancestor_merge_last_write_wins[OF run fresh anc, where fa = "PFunction ''Near.hello''"])
       (simp_all add: Both_def Near_def Far_def object_base_def)
  with res fresh anc show ?thesis by (simp add: Near_def Far_def)
qed

section \<open>Properties of the attribute lookup\<close>

lemma getattribute_missing:
  "object_getattribute self name = None \<Longrightarrow> getattribute depth self name = Inl RecursionError"
  by (induction depth) simp_all

lemma getattribute_found:
  "object_getattribute self name = Some v \<Longrightarrow> getattribute (Suc depth) self name = Inr v"
  by simp

lemma getattribute_never_AttributeError:
  "getattribute depth self name \<noteq> Inl (AttributeError m)"
proof (cases "object_getattribute self name")
  case None
  then show ?thesis by (simp add: getattribute_missing)
next
  case (Some v)
  then show ?thesis by (cases depth) simp_all
qed

lemma process1_instance_lookup:
  "object_getattribute (heap process1 0) ''missing'' = None"
  by (simp add: process1_def init_subclass_def process0_def MyModule_def object_init_subclass_def
      decorate_def module_attr_names_def getattr_default_def Let_def mro_def object_getattribute_def
      type_getattr_def FileAsClass_base_def object_base_def)

text \<open>
  Claim C8. An attribute that exists nowhere gives an \<^verbatim>\<open>AttributeError\<close> naming the class
  and the attribute. The code does not get there: after the normal lookup has failed,
  \<^verbatim>\<open>hasattr(self, name)\<close> enters \<^verbatim>\<open>__getattribute__\<close> again, where the normal lookup
  fails again, until the interpreter raises \<^verbatim>\<open>RecursionError\<close>, whatever the recursion
  limit. On the instance made from \<^verbatim>\<open>my_module.py\<close>:
\<close>

theorem missing_attribute_recursion:
  "object_getattribute (heap process1 0) ''missing'' = None \<and>
   getattribute depth (heap process1 0) ''missing'' = Inl RecursionError"
  using process1_instance_lookup by (simp add: getattribute_missing)

text \<open>Neither the lookup nor the hook raises anything but instances of \<^verbatim>\<open>Exception\<close>,
  unless the user's code that the hook calls does.\<close>

lemma getattribute_raises_Exception:
  "getattribute depth self name = Inl e \<Longrightarrow> is_Exception e"
proof (cases "object_getattribute self name")
  case None
  assume "getattribute depth self name = Inl e"
  with None show ?thesis by (simp add: getattribute_missing)
next
  case (Some v)
  assume "getattribute depth self name = Inl e"
  with Some show ?thesis by (cases depth) simp_all
qed

lemma getattr_default_raises_Exception:
  "getattr_default s module attr = Inl e \<Longrightarrow> is_Exception e"
  by (auto simp: getattr_default_def split: modentry.splits sum.splits if_splits
      dest: getattribute_raises_Exception)

lemma copy_module_attrs_raises_Exception:
  "copy_module_attrs s module names d = Inl e \<Longrightarrow> is_Exception e"
  by (induction names arbitrary: d)
     (auto split: sum.splits dest: getattr_default_raises_Exception)

lemma decorate_raises_Exception:
  "decorate s cls module r d = Inl e \<Longrightarrow> is_Exception e"
  by (auto simp: decorate_def Let_def split: sum.splits dest: copy_module_attrs_raises_Exception)

lemma init_subclass_raises_Exception:
  assumes "\<forall>e. c_super_init_subclass cls init_kwargs = Some e \<longrightarrow> is_Exception e"
      and "\<forall>init_args e. c_construct cls init_args = Inl e \<longrightarrow> is_Exception e"
      and "init_subclass cls init_kwargs caller_name s = (Inl e, s')"
  shows "is_Exception e"
  using assms unfolding init_subclass_def
  by (auto simp: Let_def split: option.splits sum.splits if_splits
      dest: decorate_raises_Exception)

section \<open>Properties of the scanner\<close>

lemma scan_entries_append:
  "scan_entries imp extension (xs @ ys) acc =
     (case scan_entries imp extension xs acc of
        (None, out, s) \<Rightarrow> scan_entries imp extension ys (out, s)
      | (Some e, out, s) \<Rightarrow> (Some e, out, s))"
proof (induction xs arbitrary: acc)
  case Nil
  show ?case by (cases acc) simp
next
  case (Cons x xs)
  obtain out s where acc: "acc = (out, s)" by (cases acc)
  show ?case unfolding acc
    by (simp add: Cons Let_def FileAsClass_call_def split: prod.splits sum.splits)
qed

lemma scan_entries_out_mono:
  "line \<in> set out \<Longrightarrow> line \<in> set (fst (snd (scan_entries imp extension xs (out, s))))"
proof (induction xs arbitrary: out s)
  case Nil
  then show ?case by simp
next
  case (Cons x xs)
  then show ?case
    by (simp add: Let_def FileAsClass_call_def split: prod.splits sum.splits)
qed

lemma scan_entries_cache_mono:
  assumes mono: "\<forall>name t k r. cache t k = Some r \<longrightarrow> cache (snd (imp name t)) k = Some r"
  shows "cache s k = Some r \<Longrightarrow>
           cache (snd (snd (scan_entries imp extension xs (out, s)))) k = Some r"
proof (induction xs arbitrary: out s)
  case Nil
  then show ?case by simp
next
  case (Cons x xs)
  have step: "cache (snd (imp (module_name_of x) s)) k = Some r"
    using mono Cons.prems by blast
  show ?case
  proof (cases "endswith x extension")
    case False
    then show ?thesis using Cons by simp
  next
    case True
    obtain res t where it: "imp (module_name_of x) s = (res, t)"
      by (cases "imp (module_name_of x) s")
    with step have "cache t k = Some r" by simp
    then show ?thesis using True it Cons.IH
      by (simp add: Let_def FileAsClass_call_def split: sum.splits)
  qed
qed

text \<open>An exception that leaves the scan of the entries is never an \<^verbatim>\<open>Exception\<close>, and it
  is one that an import has raised.\<close>

lemma scan_entries_raises:
  "fst (scan_entries imp extension xs (out, s)) = Some e \<Longrightarrow>
     \<not> is_Exception e \<and> (\<exists>name t t'. imp name t = (Inl e, t'))"
proof (induction xs arbitrary: out s)
  case Nil
  then show ?case by simp
next
  case (Cons x xs)
  show ?case
  proof (cases "endswith x extension")
    case False
    then show ?thesis using Cons by simp
  next
    case True
    obtain res t where it: "imp (module_name_of x) s = (res, t)"
      by (cases "imp (module_name_of x) s")
    show ?thesis
    proof (cases res)
      case (Inl e')
      show ?thesis
      proof (cases "is_Exception e'")
        case True
        with Cons \<open>endswith x extension\<close> it Inl show ?thesis by (simp add: Let_def)
      next
        case False
        with Cons.prems \<open>endswith x extension\<close> it Inl have "e = e'" by (simp add: Let_def)
        with False it Inl show ?thesis by blast
      qed
    next
      case (Inr module)
      with Cons \<open>endswith x extension\<close> it show ?thesis
        by (simp add: Let_def FileAsClass_call_def)
    qed
  qed
qed

lemma scan_entries_no_raise:
  assumes "\<forall>name t e t'. imp name t = (Inl e, t') \<longrightarrow> is_Exception e"
  shows "fst (scan_entries imp extension xs (out, s)) = None"
proof (cases "fst (scan_entries imp extension xs (out, s))")
  case None
  then show ?thesis .
next
  case (Some e)
  from scan_entries_raises[OF Some] assms show ?thesis by blast
qed

text \<open>When no exception leaves the scan, every entry with the extension has had its line,
  the successfully imported ones too: \<^verbatim>\<open>FileAsClass(module)\<close> raises \<^verbatim>\<open>TypeError\<close>.\<close>

lemma scan_entries_one_line_each:
  "fst (scan_entries imp extension xs (out, s)) = None \<Longrightarrow>
   length (fst (snd (scan_entries imp extension xs (out, s)))) =
     length out + length (filter (\<lambda>filename. endswith filename extension) xs)"
proof (induction xs arbitrary: out s)
  case Nil
  then show ?case by simp
next
  case (Cons x xs)
  show ?case
  proof (cases "endswith x extension")
    case False
    then show ?thesis using Cons by simp
  next
    case True
    obtain res t where it: "imp (module_name_of x) s = (res, t)"
      by (cases "imp (module_name_of x) s")
    show ?thesis
    proof (cases res)
      case (Inl e')
      with Cons True it show ?thesis
        by (cases "is_Exception e'") (simp_all add: Let_def)
    next
      case (Inr module)
      with Cons True it show ?thesis
        by (simp add: Let_def FileAsClass_call_def)
    qed
  qed
qed

text \<open>
  Claim C7, as the code has it. The handler is \<^verbatim>\<open>except Exception\<close>. For a directory
  that can be listed and imports that raise nothing but instances of \<^verbatim>\<open>Exception\<close>,
  \<^verbatim>\<open>scan_for_plugins\<close> returns without raising. For each entry with the extension: when
  its import raises, the line \<^verbatim>\<open>Failed to load plugin <name>: <exception>\<close> is among the
  lines printed, and the scan goes on with the entries after it; when its import succeeds,
  every instance the Registry holds once that import is over is still registered when the
  scan ends. The imports are taken never to remove a Registry entry, as is the case when
  they reach the Registry through the hook only (\<open>init_subclass_cache_stable\<close>).
\<close>

theorem scan_for_plugins_resilient:
  assumes "dirs s directory = Some (pre @ filename # post)"
      and "endswith filename extension"
      and "\<forall>name t k r. cache t k = Some r \<longrightarrow> cache (snd (imp name t)) k = Some r"
      and "\<forall>name t e t'. imp name t = (Inl e, t') \<longrightarrow> is_Exception e"
  shows "\<exists>out s'. scan_for_plugins imp directory extension s = (None, out, s') \<and>
          (\<forall>e t. imp (module_name_of filename)
                    (snd (snd (scan_entries imp extension pre ([], s)))) = (Inl e, t)
                 \<longrightarrow> plugin_failure (module_name_of filename) e \<in> set out) \<and>
          (\<forall>module t k r.
              imp (module_name_of filename)
                (snd (snd (scan_entries imp extension pre ([], s)))) = (Inr module, t)
              \<and> cache t k = Some r \<longrightarrow> cache s' k = Some r)"
proof -
  obtain o1 s1 where pre: "scan_entries imp extension pre ([], s) = (None, o1, s1)"
    using scan_entries_no_raise[OF assms(4), of extension pre "[]" s]
    by (cases "scan_entries imp extension pre ([], s)") auto
  obtain res t where it: "imp (module_name_of filename) s1 = (res, t)"
    by (cases "imp (module_name_of filename) s1")
  have caught: "is_Exception e" if "res = Inl e" for e
    using assms(4) it that by blast
  define line where "line = plugin_failure (module_name_of filename)
     (case res of Inl e \<Rightarrow> e | Inr module \<Rightarrow> TypeError ''FileAsClass() takes no arguments'')"
  have step: "scan_entries imp extension (filename # post) (o1, s1) =
                scan_entries imp extension post (o1 @ [line], t)"
    using assms(2) it caught
    by (cases res) (simp_all add: Let_def FileAsClass_call_def line_def)
  obtain out s' where fin: "scan_entries imp extension post (o1 @ [line], t) = (None, out, s')"
    using scan_entries_no_raise[OF assms(4), of extension post "o1 @ [line]" t]
    by (cases "scan_entries imp extension post (o1 @ [line], t)") auto
  have whole: "scan_entries imp extension (pre @ filename # post) ([], s) = (None, out, s')"
    by (simp only: scan_entries_append pre step fin prod.case option.case)
  have run: "scan_for_plugins imp directory extension s = (None, out, s')"
    using assms(1) whole by (simp add: scan_for_plugins_def)
  have printed: "line \<in> set out"
    using scan_entries_out_mono[of line "o1 @ [line]" imp extension post t] fin by simp
  have kept: "cache s' k = Some r" if "cache t k = Some r" for k r
    using scan_entries_cache_mono[OF assms(3) that, of extension post "o1 @ [line]"] fin by simp
  show ?thesis
    using run printed kept it unfolding pre line_def by auto
qed

lemma example_import_cache_mono:
  "\<forall>name t k r. cache t k = Some r \<longrightarrow> cache (snd (example_import name t)) k = Some r"
proof (intro allI impI)
  fix name and t :: pystate and k r
  assume c: "cache t k = Some r"
  have "cache (snd (init_subclass MyModule [] (Some ''my_module'') t)) k = Some r"
    by (rule init_subclass_cache_stable[OF c])
  then show "cache (snd (example_import name t)) k = Some r"
    using c by (auto simp: example_import_def split: prod.splits sum.splits)
qed

lemma example_import_raises_Exceptions:
  "\<forall>name t e t'. example_import name t = (Inl e, t') \<longrightarrow> is_Exception e"
proof (intro allI impI)
  fix name and t t' :: pystate and e
  assume r: "example_import name t = (Inl e, t')"
  have hook: "is_Exception e'"
    if "init_subclass MyModule [] (Some ''my_module'') t = (Inl e', t')" for e'
    by (rule init_subclass_raises_Exception[OF _ _ that])
       (simp_all add: MyModule_def object_init_subclass_def)
  show "is_Exception e"
    using r hook by (auto simp: example_import_def split: prod.splits sum.splits if_splits)
qed

lemma example_import_my_module:
  "fst (example_import ''my_module'' process0) = Inr (InstanceRef 0) \<and>
   cache (snd (example_import ''my_module'' process0)) ''my_module'' = Some 0"
  by (simp add: example_import_def init_subclass_def process0_def MyModule_def
      object_init_subclass_def decorate_def module_attr_names_def getattr_default_def Let_def mro_def)

theorem scan_for_plugins_resilient_witness:
  "dirs process0 ''plugins'' = Some ([] @ ''broken.py'' # [''notes.txt'', ''my_module.py'']) \<and>
   endswith ''broken.py'' ''.py'' \<and> endswith ''my_module.py'' ''.py'' \<and>
   fst (scan_for_plugins example_import ''plugins'' ''.py'' process0) = None \<and>
   plugin_failure ''broken'' (OtherError ''ValueError'' ''broken plugin'')
     \<in> set (fst (snd (scan_for_plugins example_import ''plugins'' ''.py'' process0))) \<and>
   cache (snd (snd (scan_for_plugins example_import ''plugins'' ''.py'' process0))) ''my_module'' = Some 0"
proof -
  have d1: "dirs process0 ''plugins'' = Some ([] @ ''broken.py'' # [''notes.txt'', ''my_module.py''])"
    by (simp add: process0_def)
  have d2: "dirs process0 ''plugins'' = Some ([''broken.py'', ''notes.txt''] @ ''my_module.py'' # [])"
    by (simp add: process0_def)
  have e1: "endswith ''broken.py'' ''.py''" and e2: "endswith ''my_module.py'' ''.py''"
    by (simp_all add: endswith_def)
  have n1: "module_name_of ''broken.py'' = ''broken''"
    and n2: "module_name_of ''my_module.py'' = ''my_module''"
    by (simp_all add: module_name_of_def)
  have before: "scan_entries example_import ''.py'' [''broken.py'', ''notes.txt''] ([], process0)
      = (None, [plugin_failure ''broken'' (OtherError ''ValueError'' ''broken plugin'')], process0)"
    by (simp add: endswith_def module_name_of_def example_import_def Let_def)
  have broken: "example_import ''broken'' process0 =
      (Inl (OtherError ''ValueError'' ''broken plugin''), process0)"
    by (simp add: example_import_def)
  obtain t where good: "example_import ''my_module'' process0 = (Inr (InstanceRef 0), t)"
    and reg: "cache t ''my_module'' = Some 0"
    using example_import_my_module by (cases "example_import ''my_module'' process0") auto
  from scan_for_plugins_resilient[OF d1 e1 example_import_cache_mono example_import_raises_Exceptions]
  obtain out s' where r1: "scan_for_plugins example_import ''plugins'' ''.py'' process0 = (None, out, s')"
    and f1: "plugin_failure ''broken'' (OtherError ''ValueError'' ''broken plugin'') \<in> set out"
    using broken by (auto simp: n1)
  from scan_for_plugins_resilient[OF d2 e2 example_import_cache_mono example_import_raises_Exceptions]
  have "cache s' ''my_module'' = Some 0"
    using good reg r1 unfolding before n2 by auto
  with r1 f1 d1 e1 e2 show ?thesis by simp
qed

text \<open>Without the restriction to \<^verbatim>\<open>Exception\<close> the scan does raise because of one plugin:
  in the directory \<^verbatim>\<open>tools\<close> the import of \<^verbatim>\<open>quits\<close> raises \<^verbatim>\<open>SystemExit\<close>, which
  leaves \<^verbatim>\<open>scan_for_plugins\<close>; nothing is printed, and \<^verbatim>\<open>my_module\<close> is never
  imported.\<close>

theorem scan_for_plugins_aborted_by_SystemExit:
  "dirs process0 ''tools'' = Some [''quits.py'', ''my_module.py''] \<and>
   endswith ''quits.py'' ''.py'' \<and>
   exiting_import (module_name_of ''quits.py'') process0 = (Inl (SystemExit ''3''), process0) \<and>
   scan_for_plugins exiting_import ''tools'' ''.py'' process0 =
     (Some (SystemExit ''3''), [], process0) \<and>
   cache process0 ''my_module'' = None"
  by (simp add: scan_for_plugins_def process0_def endswith_def module_name_of_def
      exiting_import_def Let_def)

text \<open>
  Claim C10. The module name to import is the entry's name without the given extension,
  whatever the extension. The code drops the last three characters, whatever the extension:
  for the entry \<^verbatim>\<open>tool.plugin\<close> and the extension \<^verbatim>\<open>.plugin\<close> it asks for the module
  \<^verbatim>\<open>tool.plu\<close>, not \<^verbatim>\<open>tool\<close>.
\<close>

theorem module_name_ignores_extension:
  "endswith ''tool.plugin'' ''.plugin'' \<and>
   module_name_of ''tool.plugin'' = ''tool.plu'' \<and>
   strip_extension ''tool.plugin'' ''.plugin'' = ''tool'' \<and>
   scan_entries example_import ''.plugin'' [''tool.plugin''] ([], process0) =
     (None, [plugin_failure ''tool.plu''
         (OtherError ''ModuleNotFoundError'' (''No module named '' @ quoted ''tool.plu''))], process0)"
  by (simp add: endswith_def module_name_of_def strip_extension_def example_import_def Let_def)

text \<open>The two agree for an extension of three characters, such as the default.\<close>

lemma module_name_of_three:
  "length extension = 3 \<Longrightarrow> module_name_of filename = strip_extension filename extension"
  by (simp add: module_name_of_def strip_extension_def)

section \<open>Properties of the serializer\<close>

lemma process1_class: "i_class (heap process1 0) = MyModule"
  by (simp add: process1_def init_subclass_def process0_def MyModule_def object_init_subclass_def
      decorate_def module_attr_names_def getattr_default_def Let_def mro_def)

text \<open>The hook stores the class it was given with the new instance, unchanged.\<close>

lemma init_subclass_fresh_class:
  assumes "init_subclass cls kw (Some n) s = (Inr r, s')" and "cache s n = None"
  shows "i_class (heap s' r) = cls"
  using assms unfolding init_subclass_def
  by (auto split: option.splits sum.splits if_splits simp: Let_def)

lemma save_to_file_no_class_attribute:
  "type_getattr cls ''instance'' = None \<Longrightarrow>
     save_to_file cls filename s =
       (Inl (type_no_attribute cls ''instance''), s\<lparr>files := (files s)(filename \<mapsto> EmptyFile)\<rparr>)"
  by (simp add: save_to_file_def)

text \<open>When the class object does have an attribute \<^verbatim>\<open>instance\<close> that refers to an
  instance, saving and loading gives a new instance with the same class and the same
  attributes.\<close>

lemma save_load_roundtrip:
  assumes "type_getattr cls ''instance'' = Some (PRef r)"
      and "save_to_file cls filename s = (res1, s1)"
      and "load_from_file cls filename s1 = (res2, cls', s2)"
  shows "res1 = Inr () \<and> res2 = Inr () \<and>
         map_of (c_dict cls') ''instance'' = Some (PRef (next_addr s)) \<and>
         i_dict (heap s2 (next_addr s)) = i_dict (heap s r) \<and>
         i_class (heap s2 (next_addr s)) = i_class (heap s r)"
  using assms
  by (auto simp: save_to_file_def load_from_file_def pickle_dump_def pickle_load_def Let_def
      getstate_def setstate_def update_Some_unfold)

text \<open>
  Claim C9. Saving an instance and loading the file gives back all its attributes. For the
  instance that the hook has made, \<^verbatim>\<open>save_to_file\<close> raises instead: it reads
  \<^verbatim>\<open>cls.instance\<close> from the class object, and the hook has stored \<^verbatim>\<open>instance\<close> on the
  instance only. The file is left empty, and loading it raises \<^verbatim>\<open>EOFError\<close>.
\<close>

theorem save_to_file_after_transformation:
  "i_dict (heap process1 0) ''instance'' = Some (PRef 0) \<and>
   type_getattr (i_class (heap process1 0)) ''instance'' = None \<and>
   fst (save_to_file (i_class (heap process1 0)) ''state.pkl'' process1) =
     Inl (type_no_attribute MyModule ''instance'') \<and>
   fst (load_from_file (i_class (heap process1 0)) ''state.pkl''
          (snd (save_to_file (i_class (heap process1 0)) ''state.pkl'' process1))) = Inl EOFError"
proof -
  have a: "i_dict (heap process1 0) ''instance'' = Some (PRef 0)"
    by (simp add: process1_def init_subclass_def process0_def MyModule_def object_init_subclass_def
      decorate_def module_attr_names_def getattr_default_def Let_def mro_def FileAsClass_base_def object_base_def)
  have b: "type_getattr MyModule ''instance'' = None"
    by (simp add: type_getattr_def mro_def MyModule_def FileAsClass_base_def object_base_def)
  show ?thesis using a b
    by (simp add: process1_class save_to_file_def load_from_file_def pickle_load_def)
qed

end
